theory Spec2Isabelle
  imports Complex_Main
begin

section \<open>Values of the host language\<close>

text \<open>
  The component is TypeScript. A \<^verbatim>\<open>number\<close> that the component receives (a prop, a
  coordinate, a measured size) is a finite value, modelled by a \<^typ>\<open>real\<close>. A string is a
  \<^typ>\<open>string\<close>, an optional property (\<^verbatim>\<open>shaderMapUrl?: string\<close>) an \<^typ>\<open>string option\<close>
  with \<open>None\<close> for \<^verbatim>\<open>undefined\<close>. A \<^verbatim>\<open>throw\<close> is the left injection of a sum.

  The filter attributes and the directional scale are computed in exact real arithmetic.
  The fade-in factor and the elastic translation are computed in the arithmetic of
  \<open>js_number\<close> below, which has the two infinities and NaN of the host's binary64
  numbers: there a product with the factor 0 is 0 only when the other factor is finite.
\<close>

datatype js_error = Error string

text \<open>
  Truthiness, as \<^verbatim>\<open>!v\<close> and \<^verbatim>\<open>a || b\<close> read it: the number 0 and the empty string
  are falsy, every other real number and every other string is truthy.
\<close>

definition falsy_num :: "real \<Rightarrow> bool" where
  "falsy_num v = (v = 0)"

fun or_string :: "string option \<Rightarrow> string \<Rightarrow> string" where
  "or_string None d = d"
| "or_string (Some u) d = (if u = [] then d else u)"

subsection \<open>Numbers that can overflow\<close>

text \<open>
  A binary64 value is finite, one of the two infinities, or NaN. A finite value is held
  exactly: the rounding of a result that stays in range is not modelled, and the two zeros
  are one. \<^verbatim>\<open>Number.MAX_VALUE\<close> is \<open>2^1024 - 2^971\<close>; a result whose magnitude reaches
  \<open>2^1024 - 2^970\<close>, half a unit in the last place above it, is rounded to an infinity.
\<close>

datatype js_number = Finite real | PosInfinity | NegInfinity | NaN

definition overflow_threshold :: real where
  "overflow_threshold = 2 ^ 1024 - 2 ^ 970"

definition js_result :: "real \<Rightarrow> js_number" where
  "js_result r =
     (if overflow_threshold \<le> r then PosInfinity
      else if r \<le> - overflow_threshold then NegInfinity
      else Finite r)"


fun js_neg :: "js_number \<Rightarrow> js_number" where
  "js_neg (Finite a) = Finite (- a)"
| "js_neg PosInfinity = NegInfinity"
| "js_neg NegInfinity = PosInfinity"
| "js_neg NaN = NaN"

text \<open>\<^verbatim>\<open>a + b\<close>: the sum of opposite infinities is NaN.\<close>

fun js_add :: "js_number \<Rightarrow> js_number \<Rightarrow> js_number" where
  "js_add (Finite a) (Finite b) = js_result (a + b)"
| "js_add NaN b = NaN"
| "js_add a NaN = NaN"
| "js_add PosInfinity NegInfinity = NaN"
| "js_add NegInfinity PosInfinity = NaN"
| "js_add PosInfinity b = PosInfinity"
| "js_add NegInfinity b = NegInfinity"
| "js_add (Finite a) b = b"

text \<open>\<^verbatim>\<open>a - b\<close> is \<^verbatim>\<open>a + (-b)\<close>.\<close>

definition js_sub :: "js_number \<Rightarrow> js_number \<Rightarrow> js_number" where
  "js_sub a b = js_add a (js_neg b)"

text \<open>\<^verbatim>\<open>a * b\<close>: an infinity times zero is NaN; otherwise the signs multiply.\<close>

fun js_mul :: "js_number \<Rightarrow> js_number \<Rightarrow> js_number" where
  "js_mul (Finite a) (Finite b) = js_result (a * b)"
| "js_mul NaN b = NaN"
| "js_mul a NaN = NaN"
| "js_mul PosInfinity (Finite b) =
     (if b = 0 then NaN else if 0 < b then PosInfinity else NegInfinity)"
| "js_mul NegInfinity (Finite b) =
     (if b = 0 then NaN else if 0 < b then NegInfinity else PosInfinity)"
| "js_mul (Finite a) PosInfinity =
     (if a = 0 then NaN else if 0 < a then PosInfinity else NegInfinity)"
| "js_mul (Finite a) NegInfinity =
     (if a = 0 then NaN else if 0 < a then NegInfinity else PosInfinity)"
| "js_mul PosInfinity PosInfinity = PosInfinity"
| "js_mul PosInfinity NegInfinity = NegInfinity"
| "js_mul NegInfinity PosInfinity = NegInfinity"
| "js_mul NegInfinity NegInfinity = PosInfinity"

text \<open>
  \<^verbatim>\<open>a / d\<close> for a divisor that is a finite positive constant; the source divides by the
  literals 2 and 200 only.
\<close>

fun js_div :: "js_number \<Rightarrow> real \<Rightarrow> js_number" where
  "js_div (Finite a) d = js_result (a / d)"
| "js_div PosInfinity d = PosInfinity"
| "js_div NegInfinity d = NegInfinity"
| "js_div NaN d = NaN"

fun js_abs :: "js_number \<Rightarrow> js_number" where
  "js_abs (Finite a) = Finite \<bar>a\<bar>"
| "js_abs PosInfinity = PosInfinity"
| "js_abs NegInfinity = PosInfinity"
| "js_abs NaN = NaN"

text \<open>\<^verbatim>\<open>Math.max(a, b)\<close> is NaN when an argument is.\<close>

fun js_max :: "js_number \<Rightarrow> js_number \<Rightarrow> js_number" where
  "js_max (Finite a) (Finite b) = Finite (max a b)"
| "js_max NaN b = NaN"
| "js_max a NaN = NaN"
| "js_max PosInfinity b = PosInfinity"
| "js_max a PosInfinity = PosInfinity"
| "js_max NegInfinity b = b"
| "js_max a NegInfinity = a"

text \<open>\<^verbatim>\<open>Math.sqrt(a)\<close> is NaN for a negative argument.\<close>

fun js_sqrt :: "js_number \<Rightarrow> js_number" where
  "js_sqrt (Finite a) = (if a < 0 then NaN else Finite (sqrt a))"
| "js_sqrt PosInfinity = PosInfinity"
| "js_sqrt NegInfinity = NaN"
| "js_sqrt NaN = NaN"

text \<open>\<^verbatim>\<open>a > b\<close> is false when an operand is NaN.\<close>

fun js_gt :: "js_number \<Rightarrow> js_number \<Rightarrow> bool" where
  "js_gt (Finite a) (Finite b) = (b < a)"
| "js_gt NaN b = False"
| "js_gt a NaN = False"
| "js_gt a PosInfinity = False"
| "js_gt NegInfinity b = False"
| "js_gt PosInfinity b = True"
| "js_gt (Finite a) NegInfinity = True"

section \<open>Displacement map source\<close>

text \<open>
  The three pre-authored maps are constants imported from \<^verbatim>\<open>./utils\<close>; they are
  parameters of the model.
\<close>

record assets =
  displacementMap :: string
  polarDisplacementMap :: string
  prominentDisplacementMap :: string

text \<open>
  \<^verbatim>\<open>getMap(mode, shaderMapUrl?)\<close>: a \<^verbatim>\<open>switch\<close> on the mode string whose
  \<^verbatim>\<open>default\<close> branch throws \<^verbatim>\<open>new Error(`Invalid mode: ${mode}`)\<close>.
\<close>

definition getMap :: "assets \<Rightarrow> string \<Rightarrow> string option \<Rightarrow> js_error + string" where
  "getMap A mode shaderMapUrl =
     (if mode = ''standard'' then Inr (displacementMap A)
      else if mode = ''polar'' then Inr (polarDisplacementMap A)
      else if mode = ''prominent'' then Inr (prominentDisplacementMap A)
      else if mode = ''shader'' then Inr (or_string shaderMapUrl (displacementMap A))
      else Inl (Error (''Invalid mode: '' @ mode)))"

section \<open>The filter graph\<close>

text \<open>
  \<^verbatim>\<open>GlassFilter\<close> renders an \<^verbatim>\<open><svg>\<close> holding one radial gradient and one \<^verbatim>\<open><filter>\<close>.
  The filter is the list of its primitives in document order; each primitive carries its
  inputs (\<^verbatim>\<open>in\<close>, \<^verbatim>\<open>in2\<close>), the attributes the component sets and the name of its
  \<^verbatim>\<open>result\<close>.
\<close>

datatype channel = ChR | ChG | ChB | ChA

datatype fe_input = SourceGraphic | Named string

datatype transfer_func = Discrete "real list" | Table "real list"

datatype blend_mode = Screen

datatype composite_operator = OpIn | OpOver

datatype primitive =
    FeImage string string string
      \<comment> \<open>href, preserveAspectRatio, result\<close>
  | FeColorMatrix fe_input "real list" string
      \<comment> \<open>in, the 20 matrix values, result\<close>
  | FeComponentTransfer fe_input transfer_func string
      \<comment> \<open>in, the alpha function feFuncA, result\<close>
  | FeOffset fe_input real real string
      \<comment> \<open>in, dx, dy, result\<close>
  | FeDisplacementMap fe_input fe_input real channel channel string
      \<comment> \<open>in, in2, scale, xChannelSelector, yChannelSelector, result\<close>
  | FeBlend fe_input fe_input blend_mode string
      \<comment> \<open>in, in2, mode, result\<close>
  | FeGaussianBlur fe_input real string
      \<comment> \<open>in, stdDeviation, result\<close>
  | FeComposite fe_input fe_input composite_operator "string option"
      \<comment> \<open>in, in2, operator, result (the last primitive has none)\<close>

record fe_filter =
  filter_id :: string
  filter_x :: real
  filter_y :: real
  filter_width :: real
  filter_height :: real
  primitives :: "primitive list"

record glass_svg =
  svg_width :: real
  svg_height :: real
  gradient_id :: string
  gradient_inner_stop :: real
  svg_filter :: fe_filter

text \<open>The props of \<^verbatim>\<open>GlassFilter\<close>.\<close>

record glass_filter_props =
  gf_id :: string
  gf_displacementScale :: real
  gf_aberrationIntensity :: real
  gf_width :: real
  gf_height :: real
  gf_mode :: string
  gf_shaderMapUrl :: "string option"

text \<open>The expression \<^verbatim>\<open>mode === "shader" ? 1 : -1\<close>, written three times in the source.\<close>

definition mode_sign :: "string \<Rightarrow> real" where
  "mode_sign mode = (if mode = ''shader'' then 1 else - 1)"

definition filter_primitives :: "string \<Rightarrow> glass_filter_props \<Rightarrow> primitive list" where
  "filter_primitives href fp =
     [ FeImage href ''xMidYMid slice'' ''DISPLACEMENT_MAP'',
       FeColorMatrix (Named ''DISPLACEMENT_MAP'')
         [0.3, 0.3, 0.3, 0, 0,
          0.3, 0.3, 0.3, 0, 0,
          0.3, 0.3, 0.3, 0, 0,
          0, 0, 0, 1, 0] ''EDGE_INTENSITY'',
       FeComponentTransfer (Named ''EDGE_INTENSITY'')
         (Discrete [0, gf_aberrationIntensity fp * 0.05, 1]) ''EDGE_MASK'',
       FeOffset SourceGraphic 0 0 ''CENTER_ORIGINAL'',
       FeDisplacementMap SourceGraphic (Named ''DISPLACEMENT_MAP'')
         (gf_displacementScale fp * mode_sign (gf_mode fp)) ChR ChB ''RED_DISPLACED'',
       FeColorMatrix (Named ''RED_DISPLACED'')
         [1, 0, 0, 0, 0,
          0, 0, 0, 0, 0,
          0, 0, 0, 0, 0,
          0, 0, 0, 1, 0] ''RED_CHANNEL'',
       FeDisplacementMap SourceGraphic (Named ''DISPLACEMENT_MAP'')
         (gf_displacementScale fp * (mode_sign (gf_mode fp) - gf_aberrationIntensity fp * 0.05))
         ChR ChB ''GREEN_DISPLACED'',
       FeColorMatrix (Named ''GREEN_DISPLACED'')
         [0, 0, 0, 0, 0,
          0, 1, 0, 0, 0,
          0, 0, 0, 0, 0,
          0, 0, 0, 1, 0] ''GREEN_CHANNEL'',
       FeDisplacementMap SourceGraphic (Named ''DISPLACEMENT_MAP'')
         (gf_displacementScale fp * (mode_sign (gf_mode fp) - gf_aberrationIntensity fp * 0.1))
         ChR ChB ''BLUE_DISPLACED'',
       FeColorMatrix (Named ''BLUE_DISPLACED'')
         [0, 0, 0, 0, 0,
          0, 0, 0, 0, 0,
          0, 0, 1, 0, 0,
          0, 0, 0, 1, 0] ''BLUE_CHANNEL'',
       FeBlend (Named ''GREEN_CHANNEL'') (Named ''BLUE_CHANNEL'') Screen ''GB_COMBINED'',
       FeBlend (Named ''RED_CHANNEL'') (Named ''GB_COMBINED'') Screen ''RGB_COMBINED'',
       FeGaussianBlur (Named ''RGB_COMBINED'')
         (max 0.1 (0.5 - gf_aberrationIntensity fp * 0.1)) ''ABERRATED_BLURRED'',
       FeComposite (Named ''ABERRATED_BLURRED'') (Named ''EDGE_MASK'') OpIn
         (Some ''EDGE_ABERRATION''),
       FeComponentTransfer (Named ''EDGE_MASK'') (Table [1, 0]) ''INVERTED_MASK'',
       FeComposite (Named ''CENTER_ORIGINAL'') (Named ''INVERTED_MASK'') OpIn
         (Some ''CENTER_CLEAN''),
       FeComposite (Named ''EDGE_ABERRATION'') (Named ''CENTER_CLEAN'') OpOver None ]"

text \<open>
  \<^verbatim>\<open>GlassFilter\<close>. The only call that can throw is \<^verbatim>\<open>getMap(mode, shaderMapUrl)\<close> in the
  \<^verbatim>\<open>href\<close> of the \<^verbatim>\<open>feImage\<close>; when it does, nothing is rendered.
\<close>

definition GlassFilter :: "assets \<Rightarrow> glass_filter_props \<Rightarrow> js_error + glass_svg" where
  "GlassFilter A fp =
     (case getMap A (gf_mode fp) (gf_shaderMapUrl fp) of
        Inl e \<Rightarrow> Inl e
      | Inr href \<Rightarrow>
          Inr \<lparr> svg_width = gf_width fp,
                svg_height = gf_height fp,
                gradient_id = gf_id fp @ ''-edge-mask'',
                gradient_inner_stop = max 30 (80 - gf_aberrationIntensity fp * 2),
                svg_filter =
                  \<lparr> filter_id = gf_id fp,
                    filter_x = - gf_width fp * 0.1,
                    filter_y = - gf_height fp * 0.1,
                    filter_width = gf_width fp * 1.2,
                    filter_height = gf_height fp * 1.2,
                    primitives = filter_primitives href fp \<rparr> \<rparr>)"

text \<open>Reading a filter: its displacement stages, its discrete lookup tables, its blurs.\<close>

fun displacement_stages :: "primitive list \<Rightarrow> (real \<times> channel \<times> channel \<times> string) list" where
  "displacement_stages [] = []"
| "displacement_stages (FeDisplacementMap i i2 sc cx cy r # ps) =
     (sc, cx, cy, r) # displacement_stages ps"
| "displacement_stages (_ # ps) = displacement_stages ps"

fun discrete_tables :: "primitive list \<Rightarrow> (real list \<times> string) list" where
  "discrete_tables [] = []"
| "discrete_tables (FeComponentTransfer i (Discrete vs) r # ps) = (vs, r) # discrete_tables ps"
| "discrete_tables (_ # ps) = discrete_tables ps"

fun blur_stages :: "primitive list \<Rightarrow> (real \<times> string) list" where
  "blur_stages [] = []"
| "blur_stages (FeGaussianBlur i sd r # ps) = (sd, r) # blur_stages ps"
| "blur_stages (_ # ps) = blur_stages ps"

definition known_mode :: "string \<Rightarrow> bool" where
  "known_mode mode = (mode \<in> {''standard'', ''polar'', ''prominent'', ''shader''})"

section \<open>The pointer transform\<close>

text \<open>
  \<^verbatim>\<open>{ x, y }\<close> and \<^verbatim>\<open>{ width, height }\<close> objects, and the \<^verbatim>\<open>DOMRect\<close> that
  \<^verbatim>\<open>getBoundingClientRect()\<close> returns (the fields the component reads).
\<close>

record point =
  pt_x :: real
  pt_y :: real

record box_size =
  width :: real
  height :: real

record dom_rect =
  rect_left :: real
  rect_top :: real
  rect_width :: real
  rect_height :: real

text \<open>A callback prop; only its presence is observed (\<^verbatim>\<open>Boolean(onClick)\<close>).\<close>

datatype handler = Handler

text \<open>
  The props of \<^verbatim>\<open>LiquidGlass\<close> after destructuring, which has filled in the defaults
  (\<^verbatim>\<open>displacementScale = 70\<close>, \<^verbatim>\<open>aberrationIntensity = 2\<close>, \<^verbatim>\<open>elasticity = 0.15\<close>,
  \<^verbatim>\<open>overLight = false\<close>, \<^verbatim>\<open>mode = "standard"\<close>, ...). The props without a default stay
  optional. Children, class name, style and the container references, which the pointer
  transform and the filter do not read, are left out.
\<close>

record liquid_glass_props =
  displacementScale :: real
  blurAmount :: real
  saturation :: real
  aberrationIntensity :: real
  elasticity :: real
  cornerRadius :: real
  externalGlobalMousePos :: "point option"
  externalMouseOffset :: "point option"
  padding :: string
  overLight :: bool
  mode :: string
  onClick :: "handler option"
  externalGlassSize :: "box_size option"

text \<open>
  The state of a rendered \<^verbatim>\<open>LiquidGlass\<close>: its \<^verbatim>\<open>useState\<close> cells, and for
  \<^verbatim>\<open>glassRef.current\<close> either \<open>None\<close> (\<^verbatim>\<open>null\<close>, not mounted) or the bounding rectangle of
  the mounted element.
\<close>

record liquid_glass_state =
  isHovered :: bool
  isActive :: bool
  glassSize :: box_size
  internalGlobalMousePos :: point
  internalMouseOffset :: point
  glassRef :: "dom_rect option"

text \<open>\<^verbatim>\<open>externalGlobalMousePos || internalGlobalMousePos\<close>: an object is truthy.\<close>

definition globalMousePos :: "liquid_glass_props \<Rightarrow> liquid_glass_state \<Rightarrow> point" where
  "globalMousePos p s =
     (case externalGlobalMousePos p of Some g \<Rightarrow> g | None \<Rightarrow> internalGlobalMousePos s)"

definition mouseOffset :: "liquid_glass_props \<Rightarrow> liquid_glass_state \<Rightarrow> point" where
  "mouseOffset p s =
     (case externalMouseOffset p of Some g \<Rightarrow> g | None \<Rightarrow> internalMouseOffset s)"

text \<open>
  The value of \<^verbatim>\<open>calculateDirectionalScale\<close> is one of two CSS strings:
  \<^verbatim>\<open>"scale(1)"\<close> or \<^verbatim>\<open>`scaleX(${a}) scaleY(${b})`\<close>; the pressed state adds
  \<^verbatim>\<open>"scale(0.96)"\<close>.
\<close>

datatype scale_css = Scale real | ScaleXY real real

text \<open>What the CSS functions mean: \<^verbatim>\<open>scale(s)\<close> scales both axes by \<open>s\<close>.\<close>

fun scaleX_of :: "scale_css \<Rightarrow> real" where
  "scaleX_of (Scale s) = s"
| "scaleX_of (ScaleXY a b) = a"

fun scaleY_of :: "scale_css \<Rightarrow> real" where
  "scaleY_of (Scale s) = s"
| "scaleY_of (ScaleXY a b) = b"

definition activationZone :: real where
  "activationZone = 200"

text \<open>
  The three functions below open with guards that return early. The guard
  \<^verbatim>\<open>!globalMousePos.x || !globalMousePos.y || !glassRef.current\<close> has no effect besides its
  value, so the test of \<^verbatim>\<open>glassRef.current\<close> is written first, as the \<open>case\<close> that also
  binds \<^verbatim>\<open>rect\<close>.
\<close>

definition calculateDirectionalScale :: "liquid_glass_props \<Rightarrow> liquid_glass_state \<Rightarrow> scale_css" where
  "calculateDirectionalScale p s =
     (case glassRef s of
        None \<Rightarrow> Scale 1
      | Some rect \<Rightarrow>
          if falsy_num (pt_x (globalMousePos p s)) \<or> falsy_num (pt_y (globalMousePos p s))
          then Scale 1
          else
            let pillCenterX = rect_left rect + rect_width rect / 2;
                pillCenterY = rect_top rect + rect_height rect / 2;
                pillWidth = width (glassSize s);
                pillHeight = height (glassSize s);
                deltaX = pt_x (globalMousePos p s) - pillCenterX;
                deltaY = pt_y (globalMousePos p s) - pillCenterY;
                edgeDistanceX = max 0 (\<bar>deltaX\<bar> - pillWidth / 2);
                edgeDistanceY = max 0 (\<bar>deltaY\<bar> - pillHeight / 2);
                edgeDistance = sqrt (edgeDistanceX * edgeDistanceX + edgeDistanceY * edgeDistanceY)
            in
              if edgeDistance > activationZone then Scale 1
              else
                let fadeInFactor = 1 - edgeDistance / activationZone;
                    centerDistance = sqrt (deltaX * deltaX + deltaY * deltaY)
                in
                  if centerDistance = 0 then Scale 1
                  else
                    let normalizedX = deltaX / centerDistance;
                        normalizedY = deltaY / centerDistance;
                        stretchIntensity =
                          min (centerDistance / 300) 1 * elasticity p * fadeInFactor;
                        scaleX = 1 + \<bar>normalizedX\<bar> * stretchIntensity * 0.3
                                   - \<bar>normalizedY\<bar> * stretchIntensity * 0.15;
                        scaleY = 1 + \<bar>normalizedY\<bar> * stretchIntensity * 0.3
                                   - \<bar>normalizedX\<bar> * stretchIntensity * 0.15
                    in ScaleXY (max 0.8 scaleX) (max 0.8 scaleY))"

definition calculateFadeInFactor :: "liquid_glass_props \<Rightarrow> liquid_glass_state \<Rightarrow> js_number" where
  "calculateFadeInFactor p s =
     (case glassRef s of
        None \<Rightarrow> Finite 0
      | Some rect \<Rightarrow>
          if falsy_num (pt_x (globalMousePos p s)) \<or> falsy_num (pt_y (globalMousePos p s))
          then Finite 0
          else
            let pillCenterX =
                  js_add (Finite (rect_left rect)) (js_div (Finite (rect_width rect)) 2);
                pillCenterY =
                  js_add (Finite (rect_top rect)) (js_div (Finite (rect_height rect)) 2);
                pillWidth = Finite (width (glassSize s));
                pillHeight = Finite (height (glassSize s));
                edgeDistanceX =
                  js_max (Finite 0)
                    (js_sub (js_abs (js_sub (Finite (pt_x (globalMousePos p s))) pillCenterX))
                       (js_div pillWidth 2));
                edgeDistanceY =
                  js_max (Finite 0)
                    (js_sub (js_abs (js_sub (Finite (pt_y (globalMousePos p s))) pillCenterY))
                       (js_div pillHeight 2));
                edgeDistance =
                  js_sqrt (js_add (js_mul edgeDistanceX edgeDistanceX)
                                  (js_mul edgeDistanceY edgeDistanceY))
            in if js_gt edgeDistance (Finite activationZone) then Finite 0
               else js_sub (Finite 1) (js_div edgeDistance activationZone))"

text \<open>The \<^verbatim>\<open>{ x, y }\<close> object that \<^verbatim>\<open>calculateElasticTranslation\<close> returns.\<close>

record elastic_translation =
  elastic_x :: js_number
  elastic_y :: js_number

text \<open>
  The products are evaluated from left to right:
  \<^verbatim>\<open>(globalMousePos.x - pillCenterX) * elasticity * 0.1 * fadeInFactor\<close>.
\<close>

definition calculateElasticTranslation ::
    "liquid_glass_props \<Rightarrow> liquid_glass_state \<Rightarrow> elastic_translation" where
  "calculateElasticTranslation p s =
     (case glassRef s of
        None \<Rightarrow> \<lparr>elastic_x = Finite 0, elastic_y = Finite 0\<rparr>
      | Some rect \<Rightarrow>
          let fadeInFactor = calculateFadeInFactor p s;
              pillCenterX =
                js_add (Finite (rect_left rect)) (js_div (Finite (rect_width rect)) 2);
              pillCenterY =
                js_add (Finite (rect_top rect)) (js_div (Finite (rect_height rect)) 2)
          in \<lparr>elastic_x =
                js_mul (js_mul (js_mul (js_sub (Finite (pt_x (globalMousePos p s))) pillCenterX)
                                       (Finite (elasticity p)))
                               (Finite 0.1))
                       fadeInFactor,
              elastic_y =
                js_mul (js_mul (js_mul (js_sub (Finite (pt_y (globalMousePos p s))) pillCenterY)
                                       (Finite (elasticity p)))
                               (Finite 0.1))
                       fadeInFactor\<rparr>)"

text \<open>
  \<^verbatim>\<open>dynamicTransform\<close>: the scale part followed by
  \<^verbatim>\<open>translate(${elastic.x}px, ${elastic.y}px)\<close>.
\<close>

record transform =
  scale_part :: scale_css
  translate_part :: elastic_translation

definition dynamicTransform :: "liquid_glass_props \<Rightarrow> liquid_glass_state \<Rightarrow> transform" where
  "dynamicTransform p s =
     \<lparr> scale_part =
         (if isActive s \<and> onClick p \<noteq> None then Scale 0.96
          else calculateDirectionalScale p s),
       translate_part = calculateElasticTranslation p s \<rparr>"



text \<open>
  The defaults of the destructured props, and the initial values of the \<^verbatim>\<open>useState\<close>
  cells before the component is mounted.
\<close>

definition default_props :: liquid_glass_props where
  "default_props =
     \<lparr> displacementScale = 70, blurAmount = 0.0625, saturation = 140,
       aberrationIntensity = 2, elasticity = 0.15, cornerRadius = 999,
       externalGlobalMousePos = None, externalMouseOffset = None,
       padding = ''24px 32px'', overLight = False, mode = ''standard'',
       onClick = None, externalGlassSize = None \<rparr>"

definition initial_state :: "liquid_glass_props \<Rightarrow> liquid_glass_state" where
  "initial_state p =
     \<lparr> isHovered = False, isActive = False,
       glassSize = (case externalGlassSize p of Some sz \<Rightarrow> sz
                    | None \<Rightarrow> \<lparr>width = 270, height = 69\<rparr>),
       internalGlobalMousePos = \<lparr>pt_x = 0, pt_y = 0\<rparr>,
       internalMouseOffset = \<lparr>pt_x = 0, pt_y = 0\<rparr>,
       glassRef = None \<rparr>"

section \<open>From the props of LiquidGlass to the filter\<close>

text \<open>
  The props with which \<^verbatim>\<open>LiquidGlass\<close> renders \<^verbatim>\<open>GlassContainer\<close> (callbacks, children,
  class name and style apart), and those with which \<^verbatim>\<open>GlassContainer\<close> renders
  \<^verbatim>\<open>GlassFilter\<close>. \<^verbatim>\<open>filterId\<close> (from \<^verbatim>\<open>useId\<close>) and \<^verbatim>\<open>shaderMapUrl\<close> (a
  \<^verbatim>\<open>useState\<close> cell, initially the empty string) are the container's own state.
\<close>

record glass_container_props =
  gc_cornerRadius :: real
  gc_displacementScale :: real
  gc_blurAmount :: real
  gc_saturation :: real
  gc_aberrationIntensity :: real
  gc_glassSize :: box_size
  gc_padding :: string
  gc_mouseOffset :: point
  gc_active :: bool
  gc_overLight :: bool
  gc_onClick :: "handler option"
  gc_mode :: string

definition container_props :: "liquid_glass_props \<Rightarrow> liquid_glass_state \<Rightarrow> glass_container_props" where
  "container_props p s =
     \<lparr> gc_cornerRadius = cornerRadius p,
       gc_displacementScale =
         (if overLight p then displacementScale p * 0.5 else displacementScale p),
       gc_blurAmount = blurAmount p,
       gc_saturation = saturation p,
       gc_aberrationIntensity = aberrationIntensity p,
       gc_glassSize = glassSize s,
       gc_padding = padding p,
       gc_mouseOffset = mouseOffset p s,
       gc_active = isActive s,
       gc_overLight = overLight p,
       gc_onClick = onClick p,
       gc_mode = mode p \<rparr>"

record glass_container_state =
  filterId :: string
  shaderMapUrl :: string

definition filter_props :: "glass_container_props \<Rightarrow> glass_container_state \<Rightarrow> glass_filter_props" where
  "filter_props c cs =
     \<lparr> gf_id = filterId cs,
       gf_displacementScale = gc_displacementScale c,
       gf_aberrationIntensity = gc_aberrationIntensity c,
       gf_width = width (gc_glassSize c),
       gf_height = height (gc_glassSize c),
       gf_mode = gc_mode c,
       gf_shaderMapUrl = Some (shaderMapUrl cs) \<rparr>"

text \<open>The backdrop blur radius in pixels, the one other place where \<^verbatim>\<open>overLight\<close> enters.\<close>

definition backdrop_blur :: "glass_container_props \<Rightarrow> real" where
  "backdrop_blur c = (if gc_overLight c then 12 else 4) + gc_blurAmount c * 32"

section \<open>Concrete inputs\<close>

text \<open>
  A set of assets, and a mounted glass of the default size 270 by 69 whose bounding
  rectangle has its corner at the origin, so that its centre is (135, 34.5). The wide
  glass is 1000 by 69 with centre (500, 34.5).
\<close>

abbreviation example_assets :: assets where
  "example_assets \<equiv>
     \<lparr>displacementMap = ''std.png'', polarDisplacementMap = ''polar.png'',
      prominentDisplacementMap = ''prom.png''\<rparr>"

abbreviation example_filter_props :: "string \<Rightarrow> real \<Rightarrow> string option \<Rightarrow> glass_filter_props" where
  "example_filter_props m a u \<equiv>
     \<lparr>gf_id = ''f1'', gf_displacementScale = 70, gf_aberrationIntensity = a,
      gf_width = 270, gf_height = 69, gf_mode = m, gf_shaderMapUrl = u\<rparr>"

abbreviation example_rect :: dom_rect where
  "example_rect \<equiv> \<lparr>rect_left = 0, rect_top = 0, rect_width = 270, rect_height = 69\<rparr>"

abbreviation mounted_state :: liquid_glass_state where
  "mounted_state \<equiv> (initial_state default_props)\<lparr>glassRef := Some example_rect\<rparr>"

abbreviation wide_rect :: dom_rect where
  "wide_rect \<equiv> \<lparr>rect_left = 0, rect_top = 0, rect_width = 1000, rect_height = 69\<rparr>"

abbreviation wide_state :: liquid_glass_state where
  "wide_state \<equiv>
     (initial_state default_props)
       \<lparr>glassSize := \<lparr>width = 1000, height = 69\<rparr>, glassRef := Some wide_rect\<rparr>"

abbreviation pointer_at :: "real \<Rightarrow> real \<Rightarrow> liquid_glass_props" where
  "pointer_at a b \<equiv> default_props\<lparr>externalGlobalMousePos := Some \<lparr>pt_x = a, pt_y = b\<rparr>\<rparr>"

section \<open>Properties of the displacement map source\<close>

text \<open>
  C4. For the modes "standard", "polar" and "prominent", \<open>getMap\<close> returns the fixed asset
  of that name, whatever \<open>shaderMapUrl\<close> is (pointer and box state are not arguments at
  all); for a mode string that is none of the four known ones it throws the
  "Invalid mode" error and returns no map.
\<close>

theorem getMap_static_or_throws:
  "getMap A ''standard'' u = Inr (displacementMap A)
   \<and> getMap A ''polar'' u = Inr (polarDisplacementMap A)
   \<and> getMap A ''prominent'' u = Inr (prominentDisplacementMap A)
   \<and> (m \<notin> {''standard'', ''polar'', ''prominent'', ''shader''}
        \<longrightarrow> getMap A m u = Inl (Error (''Invalid mode: '' @ m)))"
  by (simp add: getMap_def)

theorem getMap_static_or_throws_witness:
  "''cubic'' \<notin> {''standard'', ''polar'', ''prominent'', ''shader''}
   \<and> getMap example_assets ''cubic'' (Some ''blob:1'') = Inl (Error ''Invalid mode: cubic'')
   \<and> getMap example_assets ''polar'' (Some ''blob:1'') = Inr ''polar.png''"
  using getMap_static_or_throws [of example_assets "Some ''blob:1''" "''cubic''"]
  by simp

text \<open>
  C5. In mode "shader", \<open>getMap\<close> returns the supplied shader map when it is a non-empty
  string, and the "standard" asset when none was supplied or the supplied one is the
  empty string; so, the standard asset being non-empty, the reference returned is never
  empty.
\<close>

theorem getMap_shader_fallback:
  "getMap A ''shader'' None = Inr (displacementMap A)
   \<and> getMap A ''shader'' (Some []) = Inr (displacementMap A)
   \<and> (url \<noteq> [] \<longrightarrow> getMap A ''shader'' (Some url) = Inr url)
   \<and> (displacementMap A \<noteq> [] \<longrightarrow> getMap A ''shader'' u \<noteq> Inr [])"
  by (cases u) (simp_all add: getMap_def)

theorem getMap_shader_fallback_witness:
  "''blob:1'' \<noteq> []
   \<and> getMap example_assets ''shader'' (Some ''blob:1'') = Inr ''blob:1''
   \<and> displacementMap example_assets \<noteq> []
   \<and> getMap example_assets ''shader'' (Some []) = Inr ''std.png''"
  using getMap_shader_fallback [of example_assets "''blob:1''" "Some []"]
  by simp

section \<open>Properties of the filter graph\<close>

lemma getMap_known: "known_mode m \<Longrightarrow> \<exists>href. getMap A m u = Inr href"
  by (auto simp: known_mode_def getMap_def)

lemma known_mode_examples: "known_mode ''shader''" "known_mode ''polar''" "known_mode ''standard''"
  by (simp_all add: known_mode_def)

text \<open>
  C1. For each of the four modes \<open>GlassFilter\<close> renders a filter whose displacement
  stages are exactly three, in the order red, green, blue, with the scales
  \<open>s * sign\<close>, \<open>s * (sign - a * 0.05)\<close> and \<open>s * (sign - a * 0.1)\<close>, where \<open>s\<close> is the
  displacement scale, \<open>a\<close> the aberration intensity, and \<open>sign\<close> is 1 in mode "shader" and
  -1 in the static modes; each stage selects the R channel for X and the B channel for Y.
\<close>

theorem GlassFilter_displacement_scales:
  assumes "known_mode (gf_mode fp)"
  shows "\<exists>svg. GlassFilter A fp = Inr svg \<and>
      (let s = gf_displacementScale fp; a = gf_aberrationIntensity fp;
           sign = (if gf_mode fp = ''shader'' then 1 else - 1)
       in displacement_stages (primitives (svg_filter svg)) =
            [(s * sign, ChR, ChB, ''RED_DISPLACED''),
             (s * (sign - a * 0.05), ChR, ChB, ''GREEN_DISPLACED''),
             (s * (sign - a * 0.1), ChR, ChB, ''BLUE_DISPLACED'')])"
proof -
  from assms obtain href where "getMap A (gf_mode fp) (gf_shaderMapUrl fp) = Inr href"
    using getMap_known by blast
  then show ?thesis
    by (simp add: GlassFilter_def filter_primitives_def mode_sign_def Let_def)
qed

theorem GlassFilter_displacement_scales_witness:
  "known_mode ''shader'' \<and> known_mode ''polar'' \<and>
   (\<exists>svg. GlassFilter example_assets (example_filter_props ''shader'' 2 (Some ''blob:1'')) = Inr svg
      \<and> displacement_stages (primitives (svg_filter svg)) =
            [(70, ChR, ChB, ''RED_DISPLACED''),
             (63, ChR, ChB, ''GREEN_DISPLACED''),
             (56, ChR, ChB, ''BLUE_DISPLACED'')]) \<and>
   (\<exists>svg. GlassFilter example_assets (example_filter_props ''polar'' 2 (Some [])) = Inr svg
      \<and> displacement_stages (primitives (svg_filter svg)) =
            [(- 70, ChR, ChB, ''RED_DISPLACED''),
             (- 77, ChR, ChB, ''GREEN_DISPLACED''),
             (- 84, ChR, ChB, ''BLUE_DISPLACED'')])"
  using known_mode_examples(1,2)
    GlassFilter_displacement_scales
      [of "example_filter_props ''shader'' 2 (Some ''blob:1'')" example_assets]
    GlassFilter_displacement_scales
      [of "example_filter_props ''polar'' 2 (Some [])" example_assets]
  by (simp add: Let_def)

text \<open>
  C6. For each of the four modes and every aberration intensity \<open>a\<close>, the filter has one
  discrete lookup, the edge mask, whose table is the three values \<open>[0, a * 0.05, 1]\<close>,
  and one Gaussian blur, whose standard deviation is \<open>max 0.1 (0.5 - a * 0.1)\<close>. At
  \<open>a = 2\<close> these are \<open>[0, 0.1, 1]\<close> and 0.3; at \<open>a = 0\<close> the midpoint is 0.
\<close>

theorem GlassFilter_threshold_and_blur:
  assumes "known_mode (gf_mode fp)"
  shows "\<exists>svg. GlassFilter A fp = Inr svg \<and>
      discrete_tables (primitives (svg_filter svg)) =
        [([0, gf_aberrationIntensity fp * 0.05, 1], ''EDGE_MASK'')] \<and>
      blur_stages (primitives (svg_filter svg)) =
        [(max 0.1 (0.5 - gf_aberrationIntensity fp * 0.1), ''ABERRATED_BLURRED'')]"
proof -
  from assms obtain href where "getMap A (gf_mode fp) (gf_shaderMapUrl fp) = Inr href"
    using getMap_known by blast
  then show ?thesis
    by (simp add: GlassFilter_def filter_primitives_def)
qed

theorem GlassFilter_threshold_and_blur_witness:
  "known_mode ''standard'' \<and>
   (\<exists>svg. GlassFilter example_assets (example_filter_props ''standard'' 2 (Some [])) = Inr svg
      \<and> discrete_tables (primitives (svg_filter svg)) = [([0, 0.1, 1], ''EDGE_MASK'')]
      \<and> blur_stages (primitives (svg_filter svg)) = [(0.3, ''ABERRATED_BLURRED'')]) \<and>
   (\<exists>svg. GlassFilter example_assets (example_filter_props ''standard'' 0 (Some [])) = Inr svg
      \<and> discrete_tables (primitives (svg_filter svg)) = [([0, 0, 1], ''EDGE_MASK'')]
      \<and> blur_stages (primitives (svg_filter svg)) = [(0.5, ''ABERRATED_BLURRED'')])"
  using known_mode_examples(3)
    GlassFilter_threshold_and_blur
      [of "example_filter_props ''standard'' 2 (Some [])" example_assets]
    GlassFilter_threshold_and_blur
      [of "example_filter_props ''standard'' 0 (Some [])" example_assets]
  by simp

text \<open>
  C7. For each of the four modes and every box \<open>width\<close> by \<open>height\<close>, the svg has the size
  of the box and the filter region starts at \<open>(-0.1 * width, -0.1 * height)\<close> with the
  size \<open>1.2 * width\<close> by \<open>1.2 * height\<close>: it ends a tenth of the box beyond its right and
  bottom edges as well.
\<close>

theorem GlassFilter_viewport:
  assumes "known_mode (gf_mode fp)"
  shows "\<exists>svg. GlassFilter A fp = Inr svg \<and>
      svg_width svg = gf_width fp \<and> svg_height svg = gf_height fp \<and>
      filter_x (svg_filter svg) = - 0.1 * gf_width fp \<and>
      filter_y (svg_filter svg) = - 0.1 * gf_height fp \<and>
      filter_width (svg_filter svg) = 1.2 * gf_width fp \<and>
      filter_height (svg_filter svg) = 1.2 * gf_height fp \<and>
      filter_x (svg_filter svg) + filter_width (svg_filter svg)
        = gf_width fp + 0.1 * gf_width fp \<and>
      filter_y (svg_filter svg) + filter_height (svg_filter svg)
        = gf_height fp + 0.1 * gf_height fp"
proof -
  from assms obtain href where "getMap A (gf_mode fp) (gf_shaderMapUrl fp) = Inr href"
    using getMap_known by blast
  then show ?thesis
    by (simp add: GlassFilter_def)
qed

theorem GlassFilter_viewport_witness:
  "known_mode ''standard'' \<and>
   (\<exists>svg. GlassFilter example_assets (example_filter_props ''standard'' 2 (Some [])) = Inr svg
      \<and> svg_width svg = 270 \<and> svg_height svg = 69
      \<and> filter_x (svg_filter svg) = - 27 \<and> filter_y (svg_filter svg) = - 6.9
      \<and> filter_width (svg_filter svg) = 324 \<and> filter_height (svg_filter svg) = 82.8)"
  using known_mode_examples(3)
    GlassFilter_viewport [of "example_filter_props ''standard'' 2 (Some [])" example_assets]
  by auto

section \<open>Properties of the overflowing arithmetic\<close>


















section \<open>Properties of the pointer transform\<close>


lemma guarded_floor_shape:
  "(if c1 then Scale 1 else if c2 then Scale 1 else if c3 then Scale 1
    else ScaleXY (max k a) (max k b)) = Scale 1
   \<or> (\<exists>a' b'. (if c1 then Scale 1 else if c2 then Scale 1 else if c3 then Scale 1
                  else ScaleXY (max k a) (max k b)) = ScaleXY (max k a') (max k b'))"
  by auto

lemma directional_scale_shape:
  "calculateDirectionalScale p s = Scale 1
   \<or> (\<exists>a b. calculateDirectionalScale p s = ScaleXY (max 0.8 a) (max 0.8 b))"
proof (cases "glassRef s")
  case None
  then show ?thesis
    by (simp add: calculateDirectionalScale_def)
next
  case (Some rect)
  show ?thesis
    unfolding calculateDirectionalScale_def Let_def Some option.case
    by (rule guarded_floor_shape)
qed

lemma translation_ignores_press:
  "calculateElasticTranslation p (s\<lparr>isActive := b\<rparr>) = calculateElasticTranslation p s"
proof -
  have g: "globalMousePos p (s\<lparr>isActive := b\<rparr>) = globalMousePos p s"
    by (simp add: globalMousePos_def split: option.split)
  have r: "glassRef (s\<lparr>isActive := b\<rparr>) = glassRef s"
    and z: "glassSize (s\<lparr>isActive := b\<rparr>) = glassSize s"
    by simp_all
  have f: "calculateFadeInFactor p (s\<lparr>isActive := b\<rparr>) = calculateFadeInFactor p s"
    unfolding calculateFadeInFactor_def g r z ..
  show ?thesis
    unfolding calculateElasticTranslation_def f g r ..
qed


text \<open>Facts met when the definitions are evaluated at the concrete inputs.\<close>

lemma sqrt_27225: "sqrt 27225 = 165"
  by (rule real_sqrt_unique) simp_all

lemma sqrt_90000: "sqrt 90000 = 300"
  by (rule real_sqrt_unique) simp_all

lemma sqrt_160000: "sqrt 160000 = 400"
  by (rule real_sqrt_unique) simp_all

lemma js_result_small:
  assumes "\<bar>r\<bar> < 1000000"
  shows "js_result r = Finite r"
proof -
  have "(1000000::real) < overflow_threshold"
    by (simp add: overflow_threshold_def)
  with assms have "\<not> overflow_threshold \<le> r" and "\<not> r \<le> - overflow_threshold"
    by linarith+
  then show ?thesis
    by (simp add: js_result_def)
qed

lemmas example_defs =
  globalMousePos_def default_props_def initial_state_def falsy_num_def activationZone_def


text \<open>
  The first end-to-end scenario of the specification: the pointer 300 to the right of the
  centre of the default glass is 165 from its edge, so the fade-in factor is 0.175.
\<close>

lemma scenario_fade: "calculateFadeInFactor (pointer_at 435 34.5) mounted_state = Finite 0.175"
  by (simp add: calculateFadeInFactor_def example_defs js_sub_def js_result_small sqrt_27225)

lemma scenario_scale:
  "calculateDirectionalScale (pointer_at 435 34.5) mounted_state = ScaleXY 1.007875 0.9960625"
  by (simp add: calculateDirectionalScale_def example_defs sqrt_27225 sqrt_90000)

lemma scenario_translation:
  "calculateElasticTranslation (pointer_at 435 34.5) mounted_state
   = \<lparr>elastic_x = Finite 0.7875, elastic_y = Finite 0\<rparr>"
  by (simp add: calculateElasticTranslation_def calculateFadeInFactor_def example_defs
      js_sub_def js_result_small sqrt_27225)








text \<open>
  C3. Whatever the props and the state (pointer, box, elasticity), both scale factors of
  the value of \<open>calculateDirectionalScale\<close> are at least 0.8.
\<close>

theorem directional_scale_floor:
  "0.8 \<le> scaleX_of (calculateDirectionalScale p s)
   \<and> 0.8 \<le> scaleY_of (calculateDirectionalScale p s)"
proof -
  consider "calculateDirectionalScale p s = Scale 1"
    | a b where "calculateDirectionalScale p s = ScaleXY (max 0.8 a) (max 0.8 b)"
    using directional_scale_shape by blast
  then show ?thesis
  proof cases
    case 1
    then show ?thesis by simp
  next
    case 2
    have "(0.8::real) \<le> max 0.8 a" and "(0.8::real) \<le> max 0.8 b"
      by (rule max.cobounded1)+
    with 2 show ?thesis by (simp only: scaleX_of.simps scaleY_of.simps)
  qed
qed

text \<open>
  With elasticity 2 and the pointer 400 to the right of the centre of the wide glass, the
  vertical stretch would be 0.7; the floor raises it to 0.8.
\<close>

lemma floor_engaged:
  "calculateDirectionalScale ((pointer_at 900 34.5)\<lparr>elasticity := 2\<rparr>) wide_state
   = ScaleXY 1.6 0.8"
  by (simp add: calculateDirectionalScale_def example_defs sqrt_160000)

theorem directional_scale_floor_witness:
  "0.8 \<le> scaleX_of (calculateDirectionalScale ((pointer_at 900 34.5)\<lparr>elasticity := 2\<rparr>) wide_state)
   \<and> 0.8 \<le> scaleY_of (calculateDirectionalScale ((pointer_at 900 34.5)\<lparr>elasticity := 2\<rparr>) wide_state)
   \<and> scaleY_of (calculateDirectionalScale ((pointer_at 900 34.5)\<lparr>elasticity := 2\<rparr>) wide_state) = 0.8"
  using directional_scale_floor [of "(pointer_at 900 34.5)\<lparr>elasticity := 2\<rparr>" wide_state]
  by (simp only: floor_engaged scaleY_of.simps simp_thms)

text \<open>
  C8. When the pressed state is set and a click handler is given, the scale part of the
  composed transform is \<open>scale(0.96)\<close>, and its translation part is the elastic
  translation, the same as when the glass is not pressed.
\<close>

theorem pressed_state_scale:
  assumes "isActive s" and "onClick p = Some h"
  shows "scale_part (dynamicTransform p s) = Scale 0.96
       \<and> translate_part (dynamicTransform p s) = calculateElasticTranslation p s
       \<and> translate_part (dynamicTransform p s)
           = translate_part (dynamicTransform p (s\<lparr>isActive := False\<rparr>))"
  using assms by (simp add: dynamicTransform_def translation_ignores_press)

theorem pressed_state_scale_witness:
  "isActive (mounted_state\<lparr>isActive := True\<rparr>)
   \<and> onClick ((pointer_at 435 34.5)\<lparr>onClick := Some Handler\<rparr>) = Some Handler
   \<and> scale_part (dynamicTransform ((pointer_at 435 34.5)\<lparr>onClick := Some Handler\<rparr>)
        (mounted_state\<lparr>isActive := True\<rparr>)) = Scale 0.96
   \<and> translate_part (dynamicTransform ((pointer_at 435 34.5)\<lparr>onClick := Some Handler\<rparr>)
        (mounted_state\<lparr>isActive := True\<rparr>))
       = \<lparr>elastic_x = Finite 0.7875, elastic_y = Finite 0\<rparr>"
proof -
  have a: "isActive (mounted_state\<lparr>isActive := True\<rparr>)"
    by simp
  have c: "onClick ((pointer_at 435 34.5)\<lparr>onClick := Some Handler\<rparr>) = Some Handler"
    by simp
  have t: "calculateElasticTranslation ((pointer_at 435 34.5)\<lparr>onClick := Some Handler\<rparr>)
      (mounted_state\<lparr>isActive := True\<rparr>) = \<lparr>elastic_x = Finite 0.7875, elastic_y = Finite 0\<rparr>"
    by (simp add: calculateElasticTranslation_def calculateFadeInFactor_def example_defs
        js_sub_def js_result_small sqrt_27225)
  show ?thesis
    using a c t pressed_state_scale [OF a c]
    by (simp only: simp_thms)
qed

text \<open>
  C9. When the x coordinate or the y coordinate of the pointer is 0,
  \<open>calculateDirectionalScale\<close> returns \<open>scale(1)\<close> and \<open>calculateFadeInFactor\<close> returns 0,
  whatever the bounding rectangle and the size of the glass are and whether it is mounted
  or not.
\<close>

theorem zero_coordinate_guard:
  assumes "pt_x (globalMousePos p s) = 0 \<or> pt_y (globalMousePos p s) = 0"
  shows "calculateDirectionalScale p s = Scale 1 \<and> calculateFadeInFactor p s = Finite 0"
proof (cases "glassRef s")
  case None
  then show ?thesis
    by (simp add: calculateDirectionalScale_def calculateFadeInFactor_def)
next
  case (Some rect)
  from assms
  have "falsy_num (pt_x (globalMousePos p s)) \<or> falsy_num (pt_y (globalMousePos p s))"
    by (simp add: falsy_num_def)
  with Some show ?thesis
    by (simp only: calculateDirectionalScale_def calculateFadeInFactor_def option.case if_True
        simp_thms)
qed

text \<open>
  The pointer at (0, 34.5) is inside the default glass, on its left edge: the guard gives
  0 where the pointer one unit to the right gets the full fade-in factor 1.
\<close>

lemma beside_zero_coordinate:
  "calculateFadeInFactor (pointer_at 1 34.5) mounted_state = Finite 1"
  by (simp add: calculateFadeInFactor_def example_defs js_sub_def js_result_small)

theorem zero_coordinate_guard_witness:
  "pt_x (globalMousePos (pointer_at 0 34.5) mounted_state) = 0
   \<and> calculateDirectionalScale (pointer_at 0 34.5) mounted_state = Scale 1
   \<and> calculateFadeInFactor (pointer_at 0 34.5) mounted_state = Finite 0"
proof -
  have z: "pt_x (globalMousePos (pointer_at 0 34.5) mounted_state) = 0"
    by (simp add: globalMousePos_def)
  then have "pt_x (globalMousePos (pointer_at 0 34.5) mounted_state) = 0
      \<or> pt_y (globalMousePos (pointer_at 0 34.5) mounted_state) = 0"
    by (rule disjI1)
  from z zero_coordinate_guard [OF this] show ?thesis
    by blast
qed

section \<open>Properties of the forwarding to the filter\<close>

text \<open>
  C10. The displacement scale that reaches \<open>GlassFilter\<close> is half the configured one when
  \<open>overLight\<close> is set and the configured one otherwise; the aberration intensity and the
  mode reach it as configured, and changing \<open>overLight\<close> changes no prop of the filter
  other than the displacement scale.
\<close>

theorem overLight_halves_displacement_only:
  "gf_displacementScale (filter_props (container_props p s) cs)
     = (if overLight p then displacementScale p / 2 else displacementScale p)
   \<and> gf_aberrationIntensity (filter_props (container_props p s) cs) = aberrationIntensity p
   \<and> gf_mode (filter_props (container_props p s) cs) = mode p
   \<and> (filter_props (container_props (p\<lparr>overLight := b\<rparr>) s) cs)\<lparr>gf_displacementScale := d\<rparr>
       = (filter_props (container_props p s) cs)\<lparr>gf_displacementScale := d\<rparr>"
  by (simp add: filter_props_def container_props_def mouseOffset_def)

theorem overLight_halves_displacement_only_witness:
  "gf_displacementScale
     (filter_props (container_props (default_props\<lparr>overLight := True\<rparr>) mounted_state)
        \<lparr>filterId = '':r0:'', shaderMapUrl = []\<rparr>) = 35
   \<and> gf_aberrationIntensity
     (filter_props (container_props (default_props\<lparr>overLight := True\<rparr>) mounted_state)
        \<lparr>filterId = '':r0:'', shaderMapUrl = []\<rparr>) = 2
   \<and> gf_mode
     (filter_props (container_props (default_props\<lparr>overLight := True\<rparr>) mounted_state)
        \<lparr>filterId = '':r0:'', shaderMapUrl = []\<rparr>) = ''standard''"
  using overLight_halves_displacement_only
    [of "default_props\<lparr>overLight := True\<rparr>" mounted_state
        "\<lparr>filterId = '':r0:'', shaderMapUrl = []\<rparr>"]
  by (simp add: default_props_def)

end
